theory Spec2Isabelle
  imports Complex_Main
begin

section \<open>The library catalogue of \<open>library.py\<close>\<close>

text \<open>
  The development follows \<open>library.py\<close>: the table \<open>books\<close> of class \<open>Book\<close>, the
  three exception classes, and the methods of class \<open>Library\<close>.

  The database is modelled by its contents: the rows of the table \<open>books\<close> in the order a
  query without \<open>ORDER BY\<close> returns them, which for the SQLite table of the source is the
  order of the integer primary key. Every method of \<open>Library\<close> commits before it returns, so
  the rows are the whole state. A string is a Python \<open>str\<close> in its UTF-8 encoding. The
  builtins \<open>int\<close> and \<open>float\<close>, the function \<open>open\<close> and the XML parser are parameters of
  the import.
\<close>

subsection \<open>Rows, exceptions, results\<close>

text \<open>
  A Python \<open>float\<close> is the value NaN or a number. The code only stores and reads back a
  number, whose type is the parameter \<open>'p\<close>; NaN is what SQLite stores as NULL.
\<close>

datatype 'p pyfloat = NaN | Float 'p

text \<open>
  Class \<open>Book\<close>: the columns declared \<open>nullable=False\<close> hold a value, the other two may
  be NULL. The column \<open>year\<close> holds an integer of 64 bits and \<open>price\<close> a number.
\<close>

record 'p book =
  book_id :: int
  category :: string
  title :: string
  author :: string
  year :: int
  price :: 'p
  language :: "string option"
  cover :: "string option"

type_synonym 'p library = "'p book list"

text \<open>
  The exceptions of the source and those of Python and SQLAlchemy that its statements can
  raise. \<open>KeyError\<close> carries the missing key; \<open>TypeError\<close> and \<open>ValueError\<close> carry the name of
  the builtin that raised them (\<open>int\<close>, \<open>float\<close>, \<open>join\<close> or \<open>open\<close>). \<open>OSError\<close> stands for the
  errors of the operating system that have no class of their own.
\<close>

datatype error =
    BookNotFoundError
  | DuplicatedBookTitleError
  | WrongXmlPathError
  | KeyError string
  | TypeError string
  | ValueError string
  | OverflowError
  | IntegrityError
  | InterfaceError
  | FileNotFoundError
  | NotADirectoryError
  | IsADirectoryError
  | PermissionError
  | OSError
  | UnicodeDecodeError
  | ParseError

text \<open>A method returns its value or the exception it raised, and the rows it leaves behind.\<close>

type_synonym ('a, 'p) result = "(error + 'a) \<times> 'p library"

subsection \<open>The authors string\<close>

text \<open>\<open>','.join(authors)\<close> on a list of strings.\<close>

fun join_comma :: "string list \<Rightarrow> string" where
  "join_comma [] = []"
| "join_comma [a] = a"
| "join_comma (a # b # bs) = a @ CHR '','' # join_comma (b # bs)"

text \<open>\<open>author.split(',')\<close>: the pieces between the commas, of which there is always one.\<close>

fun split_comma :: "string \<Rightarrow> string list" where
  "split_comma [] = [[]]"
| "split_comma (c # cs) =
     (if c = CHR '','' then [] # split_comma cs
      else (c # hd (split_comma cs)) # tl (split_comma cs))"

text \<open>
  \<open>_form_author\<close> and \<open>_form_authors\<close>. An element of the list may be \<open>None\<close> (the text of
  an empty \<open>author\<close> element of an imported file), on which \<open>join\<close> raises \<open>TypeError\<close>.
\<close>

definition form_author :: "string option list \<Rightarrow> error + string" where
  "form_author authors =
     (if None \<in> set authors then Inl (TypeError ''join'')
      else Inr (join_comma (map the authors)))"

definition form_authors :: "string \<Rightarrow> string list" where
  "form_authors a = split_comma a"

subsection \<open>Queries\<close>

text \<open>
  \<open>session.query(Book).filter_by(title=t).first()\<close>: the first row whose title is exactly
  \<open>t\<close>. For \<open>t = None\<close> the filter is \<open>title IS NULL\<close>, which no row satisfies.
\<close>

definition query_first_by_title :: "string option \<Rightarrow> 'p library \<Rightarrow> 'p book option" where
  "query_first_by_title t lib =
     (case t of None \<Rightarrow> None | Some s \<Rightarrow> find (\<lambda>b. title b = s) lib)"

text \<open>\<open>session.query(Book).all()\<close>.\<close>

definition query_all :: "'p library \<Rightarrow> 'p book list" where
  "query_all lib = lib"

text \<open>\<open>session.delete(book)\<close> followed by the commit: the row with the key of \<open>book\<close> is deleted.\<close>

definition delete_row :: "'p book \<Rightarrow> 'p library \<Rightarrow> 'p library" where
  "delete_row b lib = filter (\<lambda>x. book_id x \<noteq> book_id b) lib"

text \<open>
  The key SQLite gives to a row inserted without one: 1 in an empty table, otherwise one
  more than the largest key in the table.
\<close>

definition next_id :: "'p library \<Rightarrow> int" where
  "next_id lib = (if lib = [] then 1 else Max (set (map book_id lib)) + 1)"

subsection \<open>The methods of \<open>Library\<close> on the store\<close>

definition check_book_exist :: "string option \<Rightarrow> 'p library \<Rightarrow> bool" where
  "check_book_exist t lib =
     (case query_first_by_title t lib of Some b \<Rightarrow> True | None \<Rightarrow> False)"

text \<open>The integers SQLite stores: those of 64 bits, sign included.\<close>

definition sqlite_integer :: "int \<Rightarrow> bool" where
  "sqlite_integer n \<longleftrightarrow> - (2 ^ 63) \<le> n \<and> n < 2 ^ 63"

text \<open>
  \<open>add_book\<close>. The callers of the source pass strings for \<open>category\<close> and \<open>title\<close>, or
  \<open>None\<close> when an imported element has no text. The commit sends the row to SQLite:
  binding a year that is not of 64 bits raises \<open>OverflowError\<close>; then the insertion of a
  row with NULL in a column declared \<open>nullable=False\<close> (a \<open>None\<close>, or the price NaN)
  raises \<open>IntegrityError\<close>. Neither inserts anything.
\<close>

definition add_book ::
  "string option \<Rightarrow> string option \<Rightarrow> string option list \<Rightarrow> int \<Rightarrow> 'p pyfloat \<Rightarrow>
   string option \<Rightarrow> string option \<Rightarrow> 'p library \<Rightarrow> (int, 'p) result" where
  "add_book cat tit authors yr pr lang cov lib =
     (if check_book_exist tit lib then (Inl DuplicatedBookTitleError, lib)
      else case form_author authors of
        Inl e \<Rightarrow> (Inl e, lib)
      | Inr a \<Rightarrow>
          (if \<not> sqlite_integer yr then (Inl OverflowError, lib)
           else case (cat, tit, pr) of
             (Some c, Some t, Float p) \<Rightarrow>
               (let new_book = \<lparr>book_id = next_id lib, category = c, title = t, author = a,
                                year = yr, price = p, language = lang, cover = cov\<rparr>
                in (Inr (book_id new_book), lib @ [new_book]))
           | _ \<Rightarrow> (Inl IntegrityError, lib)))"

text \<open>The dictionaries \<open>get_all_books\<close> returns.\<close>

record 'p book_dict =
  d_title :: string
  d_year :: int
  d_category :: string
  d_authors :: "string list"
  d_price :: "'p pyfloat"
  d_language :: "string option"
  d_cover :: "string option"

definition book_to_dict :: "'p book \<Rightarrow> 'p book_dict" where
  "book_to_dict b =
     \<lparr>d_title = title b, d_year = year b, d_category = category b,
      d_authors = form_authors (author b), d_price = Float (price b),
      d_language = language b, d_cover = cover b\<rparr>"

definition get_all_books :: "'p library \<Rightarrow> 'p book_dict list" where
  "get_all_books lib = map book_to_dict (query_all lib)"

definition remove_book :: "string \<Rightarrow> 'p library \<Rightarrow> (unit, 'p) result" where
  "remove_book name lib =
     (case query_first_by_title (Some name) lib of
        Some book_to_remove \<Rightarrow> (Inr (), delete_row book_to_remove lib)
      | None \<Rightarrow> (Inl BookNotFoundError, lib))"

definition clean :: "'p library \<Rightarrow> (unit, 'p) result" where
  "clean lib = (Inr (), fold delete_row (query_all lib) lib)"

text \<open>
  What the database keeps true of the table: the keys increase along the rows, and, since
  rows come from \<open>add_book\<close> only, no two rows share a title.
\<close>

definition wf_library :: "'p library \<Rightarrow> bool" where
  "wf_library lib \<longleftrightarrow> sorted_wrt (<) (map book_id lib) \<and> distinct (map title lib)"

subsection \<open>The XML import\<close>

text \<open>
  An element as \<open>ElementTree\<close> gives it: tag, attribute dictionary (in the order of the
  document, each name once), the text before its first child (\<open>None\<close> when there is none),
  and the child elements.
\<close>

datatype element =
  Element (tag: string) (attrib: "(string \<times> string) list") (text_of: "string option")
    (children: "element list")

text \<open>
  A value of the dictionary \<open>record\<close>: the text of an element or the value of an attribute,
  or the list stored under \<open>'authors'\<close>.
\<close>

datatype field_value = Text "string option" | AuthorList "string option list"

type_synonym xml_record = "string \<rightharpoonup> field_value"

text \<open>\<open>record.update(attrib)\<close>.\<close>

definition dict_update :: "xml_record \<Rightarrow> (string \<times> string) list \<Rightarrow> xml_record" where
  "dict_update r kvs = fold (\<lambda>(k, v) m. m(k \<mapsto> Text (Some v))) kvs r"

text \<open>The body of the loop \<open>for subchild in child\<close>, on the pair of \<open>record\<close> and \<open>authors\<close>.\<close>

definition subchild_step ::
  "element \<Rightarrow> xml_record \<times> string option list \<Rightarrow> xml_record \<times> string option list" where
  "subchild_step subchild st =
     (case st of (r, authors) \<Rightarrow>
        (case (if tag subchild = ''author'' then (r, authors @ [text_of subchild])
               else (r(tag subchild \<mapsto> Text (text_of subchild)), authors)) of
           (r', authors') \<Rightarrow>
             (if attrib subchild \<noteq> [] then dict_update r' (attrib subchild) else r',
              authors')))"

text \<open>The body of the loop \<open>for child in root\<close>: the record appended to \<open>records\<close>.\<close>

definition record_of_child :: "element \<Rightarrow> xml_record" where
  "record_of_child child =
     (case fold subchild_step (children child)
             (if attrib child \<noteq> [] then dict_update Map.empty (attrib child) else Map.empty,
              []) of
        (r, authors) \<Rightarrow> r(''authors'' \<mapsto> AuthorList authors))"

definition records_of_root :: "element \<Rightarrow> xml_record list" where
  "records_of_root root_elem = map record_of_child (children root_elem)"

text \<open>
  \<open>int(v)\<close> and \<open>float(v)\<close> on a value of the record; the parameter says which strings the
  builtin accepts. On \<open>None\<close> and on a list the builtins raise \<open>TypeError\<close>.
\<close>

definition py_int :: "(string \<Rightarrow> int option) \<Rightarrow> field_value \<Rightarrow> error + int" where
  "py_int parse_int v =
     (case v of
        Text (Some s) \<Rightarrow>
          (case parse_int s of Some n \<Rightarrow> Inr n | None \<Rightarrow> Inl (ValueError ''int''))
      | _ \<Rightarrow> Inl (TypeError ''int''))"

definition py_float ::
  "(string \<Rightarrow> 'p pyfloat option) \<Rightarrow> field_value \<Rightarrow> error + 'p pyfloat" where
  "py_float parse_float v =
     (case v of
        Text (Some s) \<Rightarrow>
          (case parse_float s of Some x \<Rightarrow> Inr x | None \<Rightarrow> Inl (ValueError ''float''))
      | _ \<Rightarrow> Inl (TypeError ''float''))"

text \<open>
  The body of the loop \<open>for record in records\<close>: the arguments are evaluated from left to
  right, then \<open>add_book\<close> is called. In a record built by \<open>record_of_child\<close> the key
  \<open>'authors'\<close> holds the list and every other key a text (lemma \<open>record_of_child_shape\<close>
  below); for the other shapes, which the import never produces, the model answers with
  the \<open>InterfaceError\<close> of a value the database cannot bind.
\<close>

text \<open>\<open>record.get(key, None)\<close>.\<close>

definition dict_get :: "xml_record \<Rightarrow> string \<Rightarrow> field_value" where
  "dict_get r k = (case r k of None \<Rightarrow> Text None | Some v \<Rightarrow> v)"

fun add_book_values ::
  "field_value \<Rightarrow> field_value \<Rightarrow> field_value \<Rightarrow> int \<Rightarrow> 'p pyfloat \<Rightarrow>
   field_value \<Rightarrow> field_value \<Rightarrow>
   'p library \<Rightarrow> (int, 'p) result" where
  "add_book_values (Text c) (Text t) (AuthorList a) yr pr (Text lang) (Text cov) lib =
     add_book c t a yr pr lang cov lib"
| "add_book_values _ _ _ _ _ _ _ lib = (Inl InterfaceError, lib)"

definition add_record ::
  "(string \<Rightarrow> int option) \<Rightarrow> (string \<Rightarrow> 'p pyfloat option) \<Rightarrow> xml_record \<Rightarrow> 'p library \<Rightarrow>
   (int, 'p) result" where
  "add_record parse_int parse_float r lib =
     (case r ''category'' of None \<Rightarrow> (Inl (KeyError ''category''), lib) | Some cat \<Rightarrow>
     (case r ''title'' of None \<Rightarrow> (Inl (KeyError ''title''), lib) | Some tit \<Rightarrow>
     (case r ''authors'' of None \<Rightarrow> (Inl (KeyError ''authors''), lib) | Some authors \<Rightarrow>
     (case r ''year'' of None \<Rightarrow> (Inl (KeyError ''year''), lib) | Some y \<Rightarrow>
     (case py_int parse_int y of Inl e \<Rightarrow> (Inl e, lib) | Inr yr \<Rightarrow>
     (case r ''price'' of None \<Rightarrow> (Inl (KeyError ''price''), lib) | Some p \<Rightarrow>
     (case py_float parse_float p of Inl e \<Rightarrow> (Inl e, lib) | Inr pr \<Rightarrow>
        add_book_values cat tit authors yr pr
          (dict_get r ''language'') (dict_get r ''cover'') lib)))))))"

text \<open>The loop \<open>for record in records\<close>: the first exception ends it, what was added stays.\<close>

fun add_records ::
  "(string \<Rightarrow> int option) \<Rightarrow> (string \<Rightarrow> 'p pyfloat option) \<Rightarrow> xml_record list \<Rightarrow> 'p library \<Rightarrow>
   (unit, 'p) result" where
  "add_records parse_int parse_float [] lib = (Inr (), lib)"
| "add_records parse_int parse_float (r # rs) lib =
     (case add_record parse_int parse_float r lib of
        (Inl e, lib') \<Rightarrow> (Inl e, lib')
      | (Inr new_id, lib') \<Rightarrow> add_records parse_int parse_float rs lib')"

text \<open>
  What \<open>open(path_to_xml)\<close> followed by \<open>read()\<close> does: \<open>open\<close> raises an exception
  (\<open>FileNotFoundError\<close>, or another one: the path leads through a plain file, names a
  directory or a file that may not be read, is too long, holds a NUL), or \<open>read\<close> raises
  one (the file is not text), or the content is returned.
\<close>

datatype open_result = OpenRaises error | ReadRaises error | Opened string

text \<open>
  \<open>books_from_xml\<close>. The \<open>except\<close> clause catches \<open>FileNotFoundError\<close> and nothing else.
  The parameter \<open>xml\<close> is \<open>ElementTree.XML\<close>, which gives the root element or raises
  \<open>ParseError\<close>.
\<close>

definition books_from_xml ::
  "(string \<Rightarrow> open_result) \<Rightarrow> (string \<Rightarrow> element option) \<Rightarrow>
   (string \<Rightarrow> int option) \<Rightarrow> (string \<Rightarrow> 'p pyfloat option) \<Rightarrow> string \<Rightarrow> 'p library \<Rightarrow>
   (unit, 'p) result" where
  "books_from_xml open_file xml parse_int parse_float path_to_xml lib =
     (case open_file path_to_xml of
        OpenRaises e \<Rightarrow>
          (if e = FileNotFoundError then (Inl WrongXmlPathError, lib) else (Inl e, lib))
      | ReadRaises e \<Rightarrow> (Inl e, lib)
      | Opened content \<Rightarrow>
          (case xml content of
             None \<Rightarrow> (Inl ParseError, lib)
           | Some root_elem \<Rightarrow>
               add_records parse_int parse_float (records_of_root root_elem) lib))"

subsection \<open>Values for the examples\<close>

definition dune :: "real book" where
  "dune = \<lparr>book_id = 1, category = ''fiction'', title = ''Dune'', author = ''Herbert'',
           year = 1965, price = 12.5, language = None, cover = None\<rparr>"

definition emma :: "real book" where
  "emma = \<lparr>book_id = 2, category = ''novel'', title = ''Emma'', author = ''Austen'',
           year = 1815, price = 7, language = Some ''en'', cover = None\<rparr>"

text \<open>
  Instances of the parameters \<open>parse_int\<close> and \<open>parse_float\<close> for the examples: the
  strings of decimal digits, which \<open>int\<close> and \<open>float\<close> accept.
\<close>

definition decimal :: "string \<Rightarrow> int option" where
  "decimal s =
     (if s \<noteq> [] \<and> list_all (\<lambda>c. c \<in> set ''0123456789'') s
      then Some (foldl (\<lambda>n c. 10 * n + (of_char c - 48)) 0 s) else None)"

definition decimal_real :: "string \<Rightarrow> real pyfloat option" where
  "decimal_real s = map_option (\<lambda>n. Float (of_int n)) (decimal s)"

text \<open>
  A \<open>book\<close> element with nested text elements, as \<open>book_to_xml_elem\<close> of
  \<open>test_library.py\<close> builds it, and a document of two books whose first is \<open>emma\<close>.
\<close>

definition book_elem :: "string \<Rightarrow> string \<Rightarrow> string \<Rightarrow> element" where
  "book_elem t y p =
     Element ''book'' [] None
       [Element ''title'' [] (Some t) [], Element ''year'' [] (Some y) [],
        Element ''category'' [] (Some ''novel'') [], Element ''price'' [] (Some p) [],
        Element ''language'' [] (Some ''en'') [], Element ''author'' [] (Some ''Austen'') []]"

definition shelf :: "element \<Rightarrow> element" where
  "shelf second = Element ''books'' [] None [book_elem ''Emma'' ''1815'' ''7'', second]"

section \<open>Properties of the store\<close>

subsection \<open>Queries, keys and the authors string\<close>

lemma query_first_None: "query_first_by_title (Some t) lib = None \<longleftrightarrow> t \<notin> title ` set lib"
  by (auto simp: query_first_by_title_def find_None_iff)

lemma check_book_exist_Some: "check_book_exist (Some t) lib \<longleftrightarrow> t \<in> title ` set lib"
  using query_first_None [of t lib] by (auto simp: check_book_exist_def split: option.splits)

lemma check_book_exist_None: "\<not> check_book_exist None lib"
  by (simp add: check_book_exist_def query_first_by_title_def)

lemma check_book_exist_iff: "check_book_exist t lib \<longleftrightarrow> (\<exists>b\<in>set lib. t = Some (title b))"
  by (cases t) (auto simp: check_book_exist_Some check_book_exist_None)

lemma split_comma_not_Nil: "split_comma s \<noteq> []"
  by (induction s) auto

lemma split_comma_plain: "CHR '','' \<notin> set a \<Longrightarrow> split_comma a = [a]"
  by (induction a) auto

lemma split_comma_append:
  "CHR '','' \<notin> set a \<Longrightarrow> split_comma (a @ CHR '','' # s) = a # split_comma s"
  by (induction a) auto

lemma split_join:
  "authors \<noteq> [] \<Longrightarrow> \<forall>a\<in>set authors. CHR '','' \<notin> set a \<Longrightarrow>
   split_comma (join_comma authors) = authors"
  by (induction authors rule: join_comma.induct) (auto simp: split_comma_plain split_comma_append)

lemma fold_delete_row:
  "fold delete_row bs lib = filter (\<lambda>x. book_id x \<notin> book_id ` set bs) lib"
  by (induction bs arbitrary: lib) (auto simp: delete_row_def intro: filter_cong)

lemma clean_rows: "snd (clean lib) = []"
  by (simp add: clean_def query_all_def fold_delete_row)

lemma next_id_greater: "b \<in> set lib \<Longrightarrow> book_id b < next_id lib"
proof -
  assume b: "b \<in> set lib"
  then have "book_id b \<le> Max (set (map book_id lib))" by (intro Max_ge) auto
  with b show ?thesis by (auto simp: next_id_def)
qed

lemma sorted_wrt_snoc: "sorted_wrt P (xs @ [x]) \<longleftrightarrow> sorted_wrt P xs \<and> (\<forall>y\<in>set xs. P y x)"
  by (simp add: sorted_wrt_append)

lemma wf_library_Nil: "wf_library []"
  by (simp add: wf_library_def)

lemma wf_library_add_book:
  "wf_library lib \<Longrightarrow> wf_library (snd (add_book c t a y p l cv lib))"
  by (auto simp: add_book_def wf_library_def Let_def sorted_wrt_append next_id_greater
      check_book_exist_Some split: sum.splits option.splits pyfloat.splits)

lemma wf_library_filter: "wf_library lib \<Longrightarrow> wf_library (filter P lib)"
  by (auto simp: wf_library_def sorted_wrt_map sorted_wrt_filter distinct_map_filter)

lemma wf_library_remove_book: "wf_library lib \<Longrightarrow> wf_library (snd (remove_book n lib))"
  by (auto simp: remove_book_def delete_row_def wf_library_filter split: option.splits)

lemma wf_library_clean: "wf_library (snd (clean lib))"
  by (simp add: clean_rows wf_library_Nil)

lemma find_title_Some:
  "name \<in> title ` set lib \<Longrightarrow> \<exists>b. find (\<lambda>b. title b = name) lib = Some b \<and> b \<in> set lib \<and> title b = name"
  by (induction lib) auto

subsection \<open>\<open>add_book\<close>\<close>

text \<open>
  Claim C1. \<open>add_book\<close> raises \<open>DuplicatedBookTitleError\<close> exactly when a row with the same
  title is stored. Whenever it raises, the rows are the same as before, so the first row
  with that title is the one it was. When it returns a key, the rows are the old ones
  followed by one new row, which has that key and the given title.
\<close>

theorem add_book_duplicated_title:
  "(fst (add_book c t a y p l cv lib) = Inl DuplicatedBookTitleError
      \<longleftrightarrow> (\<exists>b\<in>set lib. t = Some (title b)))
   \<and> (\<forall>e. fst (add_book c t a y p l cv lib) = Inl e \<longrightarrow>
         snd (add_book c t a y p l cv lib) = lib
         \<and> query_first_by_title t (snd (add_book c t a y p l cv lib)) = query_first_by_title t lib)
   \<and> (\<forall>i. fst (add_book c t a y p l cv lib) = Inr i \<longrightarrow>
         (\<exists>b. snd (add_book c t a y p l cv lib) = lib @ [b] \<and> book_id b = i
              \<and> Some (title b) = t \<and> title b \<notin> title ` set lib))"
proof (cases "check_book_exist t lib")
  case True
  then show ?thesis by (simp add: add_book_def check_book_exist_iff)
next
  case False
  then have new: "\<not> (\<exists>b\<in>set lib. t = Some (title b))" by (simp add: check_book_exist_iff)
  have neq: "TypeError ''join'' \<noteq> DuplicatedBookTitleError" by simp
  show ?thesis using False new
    by (auto simp: add_book_def form_author_def Let_def split: option.splits pyfloat.splits)
qed

theorem add_book_duplicated_title_witness:
  "fst (add_book (Some ''fiction'') (Some ''Dune'') [Some ''Other''] 1965 (Float (12.5 :: real)) None None [dune])
     = Inl DuplicatedBookTitleError
   \<and> snd (add_book (Some ''fiction'') (Some ''Dune'') [Some ''Other''] 1965 (Float (12.5 :: real)) None None [dune])
     = [dune]
   \<and> fst (add_book (Some ''novel'') (Some ''Emma'') [Some ''Austen''] 1815 (Float (7 :: real)) (Some ''en'') None [dune])
     = Inr 2
   \<and> snd (add_book (Some ''novel'') (Some ''Emma'') [Some ''Austen''] 1815 (Float (7 :: real)) (Some ''en'') None [dune])
     = [dune, emma]"
  using add_book_duplicated_title [of "Some ''fiction''" "Some ''Dune''" "[Some ''Other'']" 1965 "Float (12.5 :: real)" None None "[dune]"]
    add_book_duplicated_title [of "Some ''novel''" "Some ''Emma''" "[Some ''Austen'']" 1815 "Float (7 :: real)" "Some ''en''" None "[dune]"]
  by (simp add: dune_def emma_def add_book_def check_book_exist_def query_first_by_title_def
      form_author_def next_id_def sqlite_integer_def)

text \<open>
  Claim C2, as stated, fails: a year that is not of 64 bits and the price NaN are an
  integer year and a float price, and \<open>add_book\<close> raises on them and stores nothing, so
  \<open>get_all_books\<close> afterwards holds no record of the inputs.
\<close>

theorem add_book_round_trip_counterexample:
  "add_book (Some ''novel'') (Some ''Emma'') [Some ''Austen''] (2 ^ 63) (Float (7 :: real))
       (Some ''en'') None [dune]
     = (Inl OverflowError, [dune])
   \<and> add_book (Some ''novel'') (Some ''Emma'') [Some ''Austen''] 1815 (NaN :: real pyfloat)
       (Some ''en'') None [dune]
     = (Inl IntegrityError, [dune])
   \<and> map d_title (get_all_books [dune]) = [''Dune'']"
  by (simp add: dune_def add_book_def check_book_exist_def query_first_by_title_def
      form_author_def sqlite_integer_def get_all_books_def query_all_def book_to_dict_def)

text \<open>
  Claim C2, amended. For a title that is not stored yet, a list of authors that is not
  empty and whose names hold no comma, a year of 64 bits, a price that is a number, and
  any category, language and cover, \<open>add_book\<close> returns a key and \<open>get_all_books\<close>
  afterwards gives the dictionaries of before followed by one with exactly the given
  values; that dictionary occurs once. Splitting the joined authors string gives the list
  of authors back.
\<close>

theorem add_book_round_trip:
  assumes new: "t \<notin> title ` set lib"
    and ne: "authors \<noteq> []"
    and nc: "\<forall>a\<in>set authors. CHR '','' \<notin> set a"
    and yr: "sqlite_integer y"
  shows "fst (add_book (Some c) (Some t) (map Some authors) y (Float p) l cv lib) = Inr (next_id lib)
    \<and> get_all_books (snd (add_book (Some c) (Some t) (map Some authors) y (Float p) l cv lib))
        = get_all_books lib @
          [\<lparr>d_title = t, d_year = y, d_category = c, d_authors = authors, d_price = Float p,
            d_language = l, d_cover = cv\<rparr>]
    \<and> length (filter (\<lambda>d. d = \<lparr>d_title = t, d_year = y, d_category = c, d_authors = authors,
                               d_price = Float p, d_language = l, d_cover = cv\<rparr>)
          (get_all_books (snd (add_book (Some c) (Some t) (map Some authors) y (Float p) l cv lib))))
        = 1
    \<and> form_author (map Some authors) = Inr (join_comma authors)
    \<and> form_authors (join_comma authors) = authors"
proof -
  let ?d = "\<lparr>d_title = t, d_year = y, d_category = c, d_authors = authors, d_price = Float p,
             d_language = l, d_cover = cv\<rparr>"
  have fa: "form_author (map Some authors) = Inr (join_comma authors)"
    by (auto simp: form_author_def comp_def)
  have rt: "form_authors (join_comma authors) = authors"
    using ne nc by (simp add: form_authors_def split_join)
  have nex: "\<not> check_book_exist (Some t) lib" using new by (simp add: check_book_exist_Some)
  have old: "filter (\<lambda>d. d = ?d) (get_all_books lib) = []"
    using new by (auto simp: filter_empty_conv get_all_books_def query_all_def book_to_dict_def)
  have res: "add_book (Some c) (Some t) (map Some authors) y (Float p) l cv lib
      = (Inr (next_id lib),
         lib @ [\<lparr>book_id = next_id lib, category = c, title = t, author = join_comma authors,
                 year = y, price = p, language = l, cover = cv\<rparr>])"
    using nex fa yr by (simp add: add_book_def)
  have all: "get_all_books (snd (add_book (Some c) (Some t) (map Some authors) y (Float p) l cv lib))
      = get_all_books lib @ [?d]"
    by (simp add: res get_all_books_def query_all_def book_to_dict_def rt)
  show ?thesis by (simp only: all fa rt filter_append old) (simp add: res)
qed

theorem add_book_round_trip_witness:
  "''Emma'' \<notin> title ` set [dune] \<and> [''Austen'', ''Jane''] \<noteq> []
   \<and> CHR '','' \<notin> set ''Austen'' \<and> CHR '','' \<notin> set ''Jane'' \<and> sqlite_integer 1815
   \<and> get_all_books (snd (add_book (Some ''novel'') (Some ''Emma'') (map Some [''Austen'', ''Jane''])
         1815 (Float (7 :: real)) (Some ''en'') None [dune]))
     = [book_to_dict dune,
        \<lparr>d_title = ''Emma'', d_year = 1815, d_category = ''novel'', d_authors = [''Austen'', ''Jane''],
         d_price = Float 7, d_language = Some ''en'', d_cover = None\<rparr>]"
  using add_book_round_trip [of "''Emma''" "[dune]" "[''Austen'', ''Jane'']" 1815 "''novel''"
      "7 :: real" "Some ''en''" None]
  by (simp add: dune_def get_all_books_def query_all_def sqlite_integer_def)

text \<open>
  Claim C10, as stated, fails: with an empty list of authors and a title that is not
  stored, \<open>add_book\<close> still raises on a year that is not of 64 bits and on the price NaN.
\<close>

theorem add_book_empty_authors_counterexample:
  "''Emma'' \<notin> title ` set [dune]
   \<and> add_book (Some ''novel'') (Some ''Emma'') [] (2 ^ 63) (Float (7 :: real)) None None [dune]
     = (Inl OverflowError, [dune])
   \<and> add_book (Some ''novel'') (Some ''Emma'') [] 1815 (NaN :: real pyfloat) None None [dune]
     = (Inl IntegrityError, [dune])"
  by (simp add: dune_def add_book_def check_book_exist_def query_first_by_title_def
      form_author_def sqlite_integer_def)

text \<open>
  Claim C10, amended. With an empty list of authors, a title that is not stored yet, a
  year of 64 bits and a price that is a number, \<open>add_book\<close> returns a key without any
  check of the list, and the dictionary \<open>get_all_books\<close> gives for the new row has the
  one-element list of the empty string as its authors, not the empty list.
\<close>

theorem add_book_empty_authors:
  assumes new: "t \<notin> title ` set lib" and yr: "sqlite_integer y"
  shows "fst (add_book (Some c) (Some t) [] y (Float p) l cv lib) = Inr (next_id lib)
    \<and> get_all_books (snd (add_book (Some c) (Some t) [] y (Float p) l cv lib))
        = get_all_books lib @
          [\<lparr>d_title = t, d_year = y, d_category = c, d_authors = [''''], d_price = Float p,
            d_language = l, d_cover = cv\<rparr>]
    \<and> d_authors (last (get_all_books (snd (add_book (Some c) (Some t) [] y (Float p) l cv lib))))
        \<noteq> []"
proof -
  have nex: "\<not> check_book_exist (Some t) lib" using new by (simp add: check_book_exist_Some)
  have res: "add_book (Some c) (Some t) [] y (Float p) l cv lib
      = (Inr (next_id lib),
         lib @ [\<lparr>book_id = next_id lib, category = c, title = t, author = [],
                 year = y, price = p, language = l, cover = cv\<rparr>])"
    using nex yr by (simp add: add_book_def form_author_def)
  show ?thesis
    by (simp add: res get_all_books_def query_all_def book_to_dict_def form_authors_def)
qed

theorem add_book_empty_authors_witness:
  "''Emma'' \<notin> title ` set [dune] \<and> sqlite_integer 1815
   \<and> fst (add_book (Some ''novel'') (Some ''Emma'') [] 1815 (Float (7 :: real)) None None [dune])
     = Inr 2
   \<and> map d_authors (get_all_books (snd (add_book (Some ''novel'') (Some ''Emma'') [] 1815
        (Float (7 :: real)) None None [dune]))) = [[''Herbert''], ['''']]"
  using add_book_empty_authors [of "''Emma''" "[dune]" 1815 "''novel''" "7 :: real" None None]
  by (simp add: dune_def get_all_books_def query_all_def book_to_dict_def form_authors_def
      next_id_def sqlite_integer_def)

subsection \<open>\<open>remove_book\<close>\<close>

text \<open>
  Claim C7. For a title that no row has, \<open>remove_book\<close> raises \<open>BookNotFoundError\<close> and the
  rows are as before: \<open>get_all_books\<close> gives the same list, of the same length.
\<close>

theorem remove_book_not_found:
  "name \<notin> title ` set lib \<Longrightarrow>
   fst (remove_book name lib) = Inl BookNotFoundError
   \<and> snd (remove_book name lib) = lib
   \<and> get_all_books (snd (remove_book name lib)) = get_all_books lib
   \<and> length (get_all_books (snd (remove_book name lib))) = length (get_all_books lib)"
  using query_first_None [of name lib] by (simp add: remove_book_def)

theorem remove_book_not_found_witness:
  "''Emma'' \<notin> title ` set [dune]
   \<and> remove_book ''Emma'' [dune] = (Inl BookNotFoundError, [dune])"
  using remove_book_not_found [of "''Emma''" "[dune]"]
  by (simp add: dune_def prod_eq_iff)

text \<open>
  Claim C8. In a table whose keys and titles are unique, for a title that some row has,
  \<open>remove_book\<close> returns normally and leaves the rows with another title, each as it was
  and in the same order; exactly one row had the title.
\<close>

theorem remove_book_found:
  assumes wf: "wf_library lib" and present: "name \<in> title ` set lib"
  shows "remove_book name lib = (Inr (), filter (\<lambda>b. title b \<noteq> name) lib)
         \<and> length (filter (\<lambda>b. title b = name) lib) = 1"
proof -
  from find_title_Some [OF present] obtain b where
    f: "find (\<lambda>b. title b = name) lib = Some b" and b: "b \<in> set lib" and t: "title b = name"
    by blast
  have dt: "distinct (map title lib)" using wf by (simp add: wf_library_def)
  have "sorted_wrt (<) (map book_id lib)" using wf unfolding wf_library_def by blast
  then have "distinct (map book_id lib)" by (simp only: strict_sorted_iff)
  then have inj_id: "inj_on book_id (set lib)" by (simp add: distinct_map)
  have inj_t: "inj_on title (set lib)" using dt by (simp add: distinct_map)
  have same: "\<And>x. x \<in> set lib \<Longrightarrow> (book_id x \<noteq> book_id b) = (title x \<noteq> name)"
    using inj_id inj_t b t by (auto dest: inj_onD)
  have del: "delete_row b lib = filter (\<lambda>b. title b \<noteq> name) lib"
    unfolding delete_row_def by (rule filter_cong) (auto simp: same)
  have "filter (\<lambda>x. title x = name) lib = [b]"
    using dt b t
  proof (induction lib)
    case Nil
    then show ?case by simp
  next
    case (Cons a lib)
    then show ?case by (auto simp: filter_empty_conv image_iff)
  qed
  then show ?thesis using f del by (simp add: remove_book_def query_first_by_title_def)
qed

theorem remove_book_found_witness:
  "wf_library [dune, emma] \<and> ''Dune'' \<in> title ` set [dune, emma]
   \<and> remove_book ''Dune'' [dune, emma] = (Inr (), [emma])"
  using remove_book_found [of "[dune, emma]" "''Dune''"]
  by (simp add: dune_def emma_def wf_library_def)

subsection \<open>\<open>clean\<close>\<close>

text \<open>
  Claim C9. \<open>clean\<close> never raises and leaves no row, so \<open>get_all_books\<close> gives the empty
  list afterwards; on the empty table it changes nothing, and a second \<open>clean\<close> gives what
  the first gave.
\<close>

theorem clean_clears_all:
  "fst (clean (lib :: 'p library)) = Inr ()
   \<and> get_all_books (snd (clean lib)) = []
   \<and> clean ([] :: 'p library) = (Inr (), [])
   \<and> clean (snd (clean lib)) = clean lib"
proof -
  have rows: "snd (clean lib) = []" by (rule clean_rows)
  have ok: "fst (clean lib) = Inr ()" by (simp add: clean_def)
  have empty: "clean ([] :: 'p library) = (Inr (), [])" by (simp add: clean_def query_all_def)
  have "clean lib = (Inr (), [])" using rows ok by (metis prod.collapse)
  with rows empty show ?thesis by (simp add: get_all_books_def query_all_def)
qed

section \<open>Properties of the import\<close>

subsection \<open>The record of a \<open>book\<close> element\<close>

lemma dict_update_Nil: "dict_update r [] = r"
  by (simp add: dict_update_def)

lemma dict_update_Cons: "dict_update r ((k, v) # kvs) = dict_update (r(k \<mapsto> Text (Some v))) kvs"
  by (simp add: dict_update_def)

lemma dict_update_other: "k \<notin> fst ` set kvs \<Longrightarrow> dict_update r kvs k = r k"
  by (induction kvs arbitrary: r) (auto simp: dict_update_Nil dict_update_Cons)

lemma dict_update_member:
  "distinct (map fst kvs) \<Longrightarrow> (k, v) \<in> set kvs \<Longrightarrow> dict_update r kvs k = Some (Text (Some v))"
proof (induction kvs arbitrary: r)
  case Nil
  then show ?case by simp
next
  case (Cons a kvs)
  obtain k' v' where a: "a = (k', v')" by (cases a)
  show ?case
  proof (cases "a = (k, v)")
    case True
    then have "k \<notin> fst ` set kvs" using Cons.prems by auto
    then show ?thesis using True by (simp add: dict_update_Cons dict_update_other)
  next
    case False
    then have "(k, v) \<in> set kvs" and "distinct (map fst kvs)" using Cons.prems by auto
    then show ?thesis using Cons.IH a by (simp add: dict_update_Cons)
  qed
qed

lemma dict_update_texts:
  "dict_update r kvs k = Some v \<Longrightarrow> (\<exists>t. v = Text t) \<or> r k = Some v"
proof (induction kvs arbitrary: r)
  case Nil
  then show ?case by (simp add: dict_update_Nil)
next
  case (Cons a kvs)
  obtain k' v' where a: "a = (k', v')" by (cases a)
  from Cons.prems have "dict_update (r(k' \<mapsto> Text (Some v'))) kvs k = Some v"
    by (simp add: a dict_update_Cons)
  from Cons.IH [OF this] show ?case by (auto split: if_splits)
qed

lemma subchild_step_texts:
  assumes "fst (subchild_step c (r, a)) k = Some v"
  shows "(\<exists>t. v = Text t) \<or> r k = Some v"
proof (cases "tag c = ''author''")
  case True
  then have "dict_update r (attrib c) k = Some v \<or> r k = Some v"
    using assms by (simp add: subchild_step_def split: if_splits)
  then show ?thesis using dict_update_texts [of r "attrib c" k v] by blast
next
  case False
  let ?r = "r(tag c \<mapsto> Text (text_of c))"
  have "dict_update ?r (attrib c) k = Some v \<or> ?r k = Some v"
    using assms False by (auto simp: subchild_step_def split: if_splits)
  then have "(\<exists>t. v = Text t) \<or> ?r k = Some v"
    using dict_update_texts [of ?r "attrib c" k v] by blast
  then show ?thesis by (auto split: if_splits)
qed

lemma fold_subchild_step_texts:
  "fst (fold subchild_step cs st) k = Some v \<Longrightarrow> (\<exists>t. v = Text t) \<or> fst st k = Some v"
proof (induction cs arbitrary: st)
  case Nil
  then show ?case by simp
next
  case (Cons c cs)
  obtain r a where st: "st = (r, a)" by (cases st)
  from Cons.prems have "fst (fold subchild_step cs (subchild_step c st)) k = Some v" by simp
  from Cons.IH [OF this] have "(\<exists>t. v = Text t) \<or> fst (subchild_step c (r, a)) k = Some v"
    by (simp add: st)
  then show ?case using subchild_step_texts [of c r a k v] st by auto
qed

lemma subchild_step_authors:
  "snd (subchild_step c (r, a)) = a @ (if tag c = ''author'' then [text_of c] else [])"
  by (simp add: subchild_step_def)

lemma fold_subchild_step_authors:
  "snd (fold subchild_step cs (r, a)) = a @ map text_of (filter (\<lambda>c. tag c = ''author'') cs)"
proof (induction cs arbitrary: r a)
  case Nil
  then show ?case by simp
next
  case (Cons c cs)
  obtain r' a' where st: "subchild_step c (r, a) = (r', a')" by (cases "subchild_step c (r, a)")
  then have "a' = a @ (if tag c = ''author'' then [text_of c] else [])"
    using subchild_step_authors [of c r a] by simp
  then show ?case using Cons.IH [of r' a'] st by simp
qed

lemma subchild_step_other:
  "tag c \<noteq> f \<or> f = ''author'' \<Longrightarrow> f \<notin> fst ` set (attrib c) \<Longrightarrow>
   fst (subchild_step c (r, a)) f = r f"
  by (auto simp: subchild_step_def dict_update_other)

lemma fold_subchild_step_other:
  "\<forall>c\<in>set cs. (tag c \<noteq> f \<or> f = ''author'') \<and> f \<notin> fst ` set (attrib c) \<Longrightarrow>
   fst (fold subchild_step cs st) f = fst st f"
proof (induction cs arbitrary: st)
  case Nil
  then show ?case by simp
next
  case (Cons c cs)
  obtain r a where st: "st = (r, a)" by (cases st)
  have "\<forall>c\<in>set cs. (tag c \<noteq> f \<or> f = ''author'') \<and> f \<notin> fst ` set (attrib c)"
    using Cons.prems by simp
  then have "fst (fold subchild_step cs (subchild_step c st)) f = fst (subchild_step c st) f"
    by (rule Cons.IH)
  also have "\<dots> = fst st f" using Cons.prems st by (simp add: subchild_step_other)
  finally show ?case by simp
qed

lemma subchild_step_attribute:
  "distinct (map fst (attrib c)) \<Longrightarrow> (f, v) \<in> set (attrib c) \<Longrightarrow>
   fst (subchild_step c (r, a)) f = Some (Text (Some v))"
  by (auto simp: subchild_step_def dict_update_member)

lemma subchild_step_text:
  "tag c = f \<Longrightarrow> f \<noteq> ''author'' \<Longrightarrow> f \<notin> fst ` set (attrib c) \<Longrightarrow>
   fst (subchild_step c (r, a)) f = Some (Text (text_of c))"
  by (auto simp: subchild_step_def dict_update_other)

lemma record_of_child_authors:
  "record_of_child child ''authors''
     = Some (AuthorList (map text_of (filter (\<lambda>c. tag c = ''author'') (children child))))"
proof -
  let ?r0 = "if attrib child \<noteq> [] then dict_update Map.empty (attrib child) else Map.empty"
  obtain r a where st: "fold subchild_step (children child) (?r0, []) = (r, a)"
    by (cases "fold subchild_step (children child) (?r0, [])")
  have "a = map text_of (filter (\<lambda>c. tag c = ''author'') (children child))"
    using fold_subchild_step_authors [of "children child" ?r0 "[]"] st by simp
  then show ?thesis using st by (simp add: record_of_child_def)
qed

lemma record_of_child_field:
  "f \<noteq> ''authors'' \<Longrightarrow>
   record_of_child child f
     = fst (fold subchild_step (children child)
         (if attrib child \<noteq> [] then dict_update Map.empty (attrib child) else Map.empty, [])) f"
  by (simp add: record_of_child_def split: prod.splits)

lemma record_of_child_last_write:
  assumes "children child = pre @ c # post" and "f \<noteq> ''authors''"
    and "\<forall>d\<in>set post. (tag d \<noteq> f \<or> f = ''author'') \<and> f \<notin> fst ` set (attrib d)"
  shows "\<exists>r a. record_of_child child f = fst (subchild_step c (r, a)) f"
proof -
  let ?st0 = "(if attrib child \<noteq> [] then dict_update Map.empty (attrib child) else Map.empty,
              [] :: string option list)"
  obtain r a where pre: "fold subchild_step pre ?st0 = (r, a)"
    by (cases "fold subchild_step pre ?st0")
  have "record_of_child child f = fst (fold subchild_step post (subchild_step c (r, a))) f"
    using assms(1,2) pre by (simp add: record_of_child_field)
  also have "\<dots> = fst (subchild_step c (r, a)) f"
    using assms(3) by (rule fold_subchild_step_other)
  finally show ?thesis by blast
qed

lemma record_of_child_shape:
  assumes "record_of_child child k = Some v"
  shows "if k = ''authors'' then \<exists>a. v = AuthorList a else \<exists>t. v = Text t"
proof (cases "k = ''authors''")
  case True
  then show ?thesis using assms by (auto simp: record_of_child_authors)
next
  case False
  let ?st0 = "(if attrib child \<noteq> [] then dict_update Map.empty (attrib child) else Map.empty,
              [] :: string option list)"
  have "fst (fold subchild_step (children child) ?st0) k = Some v"
    using assms False by (simp add: record_of_child_field)
  then have "(\<exists>t. v = Text t) \<or> fst ?st0 k = Some v" by (rule fold_subchild_step_texts)
  moreover have "fst ?st0 k = Some v \<Longrightarrow> \<exists>t. v = Text t"
    using dict_update_texts [of Map.empty "attrib child" k v] by (simp split: if_splits)
  ultimately show ?thesis using False by auto
qed

text \<open>
  Claim C5, as stated, fails: an attribute of the \<open>book\<close> element is overwritten by a
  nested element of the same name, and so is an attribute of an earlier nested element.
\<close>

theorem attribute_precedence_counterexample:
  "record_of_child
     (Element ''book'' [(''title'', ''A'')] None [Element ''title'' [] (Some ''B'') []]) ''title''
     = Some (Text (Some ''B''))
   \<and> record_of_child
     (Element ''book'' [] None
        [Element ''cover'' [(''title'', ''A'')] None [], Element ''title'' [] (Some ''B'') []])
     ''title'' = Some (Text (Some ''B''))"
  by (simp add: record_of_child_def subchild_step_def dict_update_def)

text \<open>
  Claim C5, amended. The writes happen in document order and the last one counts. An
  attribute of a nested element is the value of its field when no later nested element
  has the field as its tag (\<open>author\<close> elements write no field) or carries an attribute of
  that name; an attribute of the \<open>book\<close> element is the value of its field when no nested
  element at all does. The field \<open>authors\<close> is excepted: it holds the list. The names
  of the attributes of one element are distinct, as in every XML document.
\<close>

theorem attribute_last_write:
  "(children child = pre @ c # post \<and> (f, v) \<in> set (attrib c) \<and> distinct (map fst (attrib c))
      \<and> f \<noteq> ''authors''
      \<and> (\<forall>d\<in>set post. (tag d \<noteq> f \<or> f = ''author'') \<and> f \<notin> fst ` set (attrib d))
     \<longrightarrow> record_of_child child f = Some (Text (Some v)))
   \<and> ((f, v) \<in> set (attrib child) \<and> distinct (map fst (attrib child)) \<and> f \<noteq> ''authors''
      \<and> (\<forall>d\<in>set (children child). (tag d \<noteq> f \<or> f = ''author'') \<and> f \<notin> fst ` set (attrib d))
     \<longrightarrow> record_of_child child f = Some (Text (Some v)))"
proof (intro conjI impI)
  assume a: "children child = pre @ c # post \<and> (f, v) \<in> set (attrib c)
      \<and> distinct (map fst (attrib c)) \<and> f \<noteq> ''authors''
      \<and> (\<forall>d\<in>set post. (tag d \<noteq> f \<or> f = ''author'') \<and> f \<notin> fst ` set (attrib d))"
  then obtain r a' where "record_of_child child f = fst (subchild_step c (r, a')) f"
    using record_of_child_last_write [of child pre c post f] by blast
  then show "record_of_child child f = Some (Text (Some v))"
    using a by (simp add: subchild_step_attribute)
next
  let ?st0 = "(if attrib child \<noteq> [] then dict_update Map.empty (attrib child) else Map.empty,
              [] :: string option list)"
  assume a: "(f, v) \<in> set (attrib child) \<and> distinct (map fst (attrib child)) \<and> f \<noteq> ''authors''
      \<and> (\<forall>d\<in>set (children child). (tag d \<noteq> f \<or> f = ''author'') \<and> f \<notin> fst ` set (attrib d))"
  then have ne: "attrib child \<noteq> []" by auto
  have "record_of_child child f = fst (fold subchild_step (children child) ?st0) f"
    using a by (simp add: record_of_child_field)
  also have "\<dots> = fst ?st0 f" using a by (intro fold_subchild_step_other) blast
  also have "\<dots> = Some (Text (Some v))" using a ne by (simp add: dict_update_member)
  finally show "record_of_child child f = Some (Text (Some v))" .
qed

theorem attribute_last_write_witness:
  "record_of_child
     (Element ''book'' [(''title'', ''C'')] None
        [Element ''title'' [] (Some ''B'') [], Element ''cover'' [(''title'', ''A'')] None []])
     ''title'' = Some (Text (Some ''A''))
   \<and> record_of_child
     (Element ''book'' [(''language'', ''en'')] None [Element ''title'' [] (Some ''B'') []])
     ''language'' = Some (Text (Some ''en''))"
  using attribute_last_write [of
      "Element ''book'' [(''title'', ''C'')] None
        [Element ''title'' [] (Some ''B'') [], Element ''cover'' [(''title'', ''A'')] None []]"
      "[Element ''title'' [] (Some ''B'') []]" "Element ''cover'' [(''title'', ''A'')] None []" "[]"
      "''title''" "''A''"]
    attribute_last_write [of
      "Element ''book'' [(''language'', ''en'')] None [Element ''title'' [] (Some ''B'') []]"
      "[]" "Element ''x'' [] None []" "[]" "''language''" "''en''"]
  by simp

text \<open>
  Claim C6. The field \<open>authors\<close> of the record is the list of the texts of the \<open>author\<close>
  children in document order, whatever else was written under that name. A child with
  another tag sets the field of its tag to its text, and the last such child counts: when
  neither it nor a later child carries an attribute of that name, the field holds its text.
\<close>

theorem authors_and_text_fields:
  "record_of_child child ''authors''
     = Some (AuthorList (map text_of (filter (\<lambda>c. tag c = ''author'') (children child))))
   \<and> (children child = pre @ c # post \<and> tag c \<noteq> ''author'' \<and> tag c \<noteq> ''authors''
        \<and> tag c \<notin> fst ` set (attrib c)
        \<and> (\<forall>d\<in>set post. tag d \<noteq> tag c \<and> tag c \<notin> fst ` set (attrib d))
      \<longrightarrow> record_of_child child (tag c) = Some (Text (text_of c)))"
proof (intro conjI impI)
  show "record_of_child child ''authors''
     = Some (AuthorList (map text_of (filter (\<lambda>c. tag c = ''author'') (children child))))"
    by (rule record_of_child_authors)
next
  assume a: "children child = pre @ c # post \<and> tag c \<noteq> ''author'' \<and> tag c \<noteq> ''authors''
        \<and> tag c \<notin> fst ` set (attrib c)
        \<and> (\<forall>d\<in>set post. tag d \<noteq> tag c \<and> tag c \<notin> fst ` set (attrib d))"
  then obtain r a' where "record_of_child child (tag c) = fst (subchild_step c (r, a')) (tag c)"
    using record_of_child_last_write [of child pre c post "tag c"] by blast
  then show "record_of_child child (tag c) = Some (Text (text_of c))"
    using a by (simp add: subchild_step_text)
qed

theorem authors_and_text_fields_witness:
  "record_of_child
     (Element ''book'' [(''authors'', ''X'')] None
        [Element ''title'' [] (Some ''Old'') [], Element ''author'' [] (Some ''A1'') [],
         Element ''title'' [] (Some ''New'') [], Element ''author'' [] (Some ''A1'') []])
     ''authors'' = Some (AuthorList [Some ''A1'', Some ''A1''])
   \<and> record_of_child
     (Element ''book'' [(''authors'', ''X'')] None
        [Element ''title'' [] (Some ''Old'') [], Element ''author'' [] (Some ''A1'') [],
         Element ''title'' [] (Some ''New'') [], Element ''author'' [] (Some ''A1'') []])
     ''title'' = Some (Text (Some ''New''))"
  using authors_and_text_fields [of
      "Element ''book'' [(''authors'', ''X'')] None
        [Element ''title'' [] (Some ''Old'') [], Element ''author'' [] (Some ''A1'') [],
         Element ''title'' [] (Some ''New'') [], Element ''author'' [] (Some ''A1'') []]"
      "[Element ''title'' [] (Some ''Old'') [], Element ''author'' [] (Some ''A1'') []]"
      "Element ''title'' [] (Some ''New'') []"
      "[Element ''author'' [] (Some ''A1'') []]"]
  by simp

subsection \<open>Adding the records\<close>

lemma add_book_cases:
  "(\<exists>e. add_book c t a y p l cv lib = (Inl e, lib))
   \<or> (\<exists>i b. add_book c t a y p l cv lib = (Inr i, lib @ [b]))"
  by (auto simp: add_book_def Let_def split: sum.splits option.splits pyfloat.splits)

lemma add_book_values_cases:
  "(\<exists>e. add_book_values c t a y p l cv lib = (Inl e, lib))
   \<or> (\<exists>i b. add_book_values c t a y p l cv lib = (Inr i, lib @ [b]))"
  by (cases c; cases t; cases a; cases l; cases cv) (simp_all add: add_book_cases)

lemma add_record_cases:
  "(\<exists>e. add_record pint pfl r lib = (Inl e, lib))
   \<or> (\<exists>i b. add_record pint pfl r lib = (Inr i, lib @ [b]))"
  by (simp add: add_record_def add_book_values_cases split: option.splits sum.splits)

lemma add_records_append:
  "add_records pint pfl xs lib = (Inr (), lib1) \<Longrightarrow>
   add_records pint pfl (xs @ ys) lib = add_records pint pfl ys lib1"
  by (induction xs arbitrary: lib) (auto split: prod.splits sum.splits)

lemma add_records_rows:
  "add_records pint pfl rs lib = (Inr (), lib1) \<Longrightarrow> \<exists>new. lib1 = lib @ new \<and> length new = length rs"
proof (induction rs arbitrary: lib)
  case Nil
  then show ?case by simp
next
  case (Cons r rs)
  from add_record_cases [of pint pfl r lib] Cons.prems obtain i b where
    r: "add_record pint pfl r lib = (Inr i, lib @ [b])" by auto
  with Cons.prems have "add_records pint pfl rs (lib @ [b]) = (Inr (), lib1)" by simp
  from Cons.IH [OF this] obtain new where "lib1 = (lib @ [b]) @ new" "length new = length rs"
    by blast
  then have "lib1 = lib @ (b # new) \<and> length (b # new) = length (r # rs)" by simp
  then show ?case by blast
qed

lemma add_records_failure:
  assumes "i < length rs"
    and "add_records pint pfl (take i rs) lib = (Inr (), lib1)"
    and "add_record pint pfl (rs ! i) lib1 = (Inl e, lib1)"
  shows "add_records pint pfl rs lib = (Inl e, lib1)"
proof -
  have "rs = take i rs @ (rs ! i) # drop (Suc i) rs" using assms(1) by (rule id_take_nth_drop)
  then have "add_records pint pfl rs lib = add_records pint pfl (rs ! i # drop (Suc i) rs) lib1"
    using add_records_append [OF assms(2)] by metis
  then show ?thesis using assms(3) by simp
qed

lemma dict_get_shape:
  "k \<noteq> ''authors'' \<Longrightarrow> \<exists>t. dict_get (record_of_child child) k = Text t"
  using record_of_child_shape [of child k] by (auto simp: dict_get_def split: option.splits)

lemma record_of_book_elem:
  "record_of_child (book_elem t y p)
     = [''title'' \<mapsto> Text (Some t), ''year'' \<mapsto> Text (Some y), ''category'' \<mapsto> Text (Some ''novel''),
        ''price'' \<mapsto> Text (Some p), ''language'' \<mapsto> Text (Some ''en''),
        ''authors'' \<mapsto> AuthorList [Some ''Austen'']]"
  by (simp add: book_elem_def record_of_child_def subchild_step_def)

lemma add_record_emma:
  "add_record decimal decimal_real (record_of_child (book_elem ''Emma'' ''1815'' ''7'')) [dune]
     = (Inr 2, [dune, emma])"
  by (simp add: record_of_book_elem add_record_def py_int_def py_float_def decimal_def
      decimal_real_def dict_get_def add_book_def check_book_exist_def query_first_by_title_def
      form_author_def next_id_def sqlite_integer_def dune_def emma_def)

text \<open>
  Claim C3, as stated, fails: the second book below has a year that \<open>int\<close> rejects, but
  the import ends with the \<open>DuplicatedBookTitleError\<close> of the first book.
\<close>

theorem books_from_xml_later_failure_counterexample:
  "record_of_child
       (children (Element ''books'' [] None
          [book_elem ''Dune'' ''1965'' ''12'', book_elem ''Emma'' ''abc'' ''7'']) ! 1) ''year''
     = Some (Text (Some ''abc''))
   \<and> py_int decimal (Text (Some ''abc'')) = Inl (ValueError ''int'')
   \<and> books_from_xml (\<lambda>p. Opened [])
       (\<lambda>s. Some (Element ''books'' [] None
          [book_elem ''Dune'' ''1965'' ''12'', book_elem ''Emma'' ''abc'' ''7'']))
       decimal decimal_real ''books.xml'' [dune]
     = (Inl DuplicatedBookTitleError, [dune])"
  by (simp add: books_from_xml_def records_of_root_def record_of_book_elem add_record_def
      py_int_def py_float_def decimal_def decimal_real_def dict_get_def add_book_def
      check_book_exist_def query_first_by_title_def dune_def)

text \<open>
  Claim C3, amended. Let the books before position \<open>i\<close> all be added, and let the book at
  position \<open>i\<close> carry a category, a title and a year. If \<open>int\<close> raises on its year, the
  import raises that error; if the year is an integer and \<open>float\<close> raises on its price,
  the import raises that error; if both are numbers and its title is stored by then, the
  import raises \<open>DuplicatedBookTitleError\<close>. In each case the rows afterwards are the rows
  of before the call followed by the \<open>i\<close> rows added for the earlier books.
\<close>

theorem books_from_xml_first_failure:
  assumes opened: "open_file path = Opened content"
    and parsed: "xml content = Some root_elem"
    and i: "i < length (children root_elem)"
    and before: "add_records pint pfl (take i (records_of_root root_elem)) lib = (Inr (), lib1)"
    and cat: "record_of_child (children root_elem ! i) ''category'' = Some cat"
    and tit: "record_of_child (children root_elem ! i) ''title'' = Some tit"
    and yr: "record_of_child (children root_elem ! i) ''year'' = Some yv"
  shows "(\<exists>new. lib1 = lib @ new \<and> length new = i)
    \<and> (\<forall>e. py_int pint yv = Inl e \<longrightarrow>
          books_from_xml open_file xml pint pfl path lib = (Inl e, lib1))
    \<and> (\<forall>n pv e. py_int pint yv = Inr n
          \<and> record_of_child (children root_elem ! i) ''price'' = Some pv
          \<and> py_float pfl pv = Inl e \<longrightarrow>
          books_from_xml open_file xml pint pfl path lib = (Inl e, lib1))
    \<and> (\<forall>n pv x t. py_int pint yv = Inr n
          \<and> record_of_child (children root_elem ! i) ''price'' = Some pv
          \<and> py_float pfl pv = Inr x \<and> tit = Text (Some t) \<and> t \<in> title ` set lib1 \<longrightarrow>
          books_from_xml open_file xml pint pfl path lib = (Inl DuplicatedBookTitleError, lib1))"
proof -
  let ?rs = "records_of_root root_elem"
  let ?r = "record_of_child (children root_elem ! i)"
  have len: "i < length ?rs" using i by (simp add: records_of_root_def)
  have nth: "?rs ! i = ?r" using i by (simp add: records_of_root_def)
  have import: "books_from_xml open_file xml pint pfl path lib = add_records pint pfl ?rs lib"
    using opened parsed by (simp add: books_from_xml_def)
  have stop: "\<And>e. add_record pint pfl ?r lib1 = (Inl e, lib1) \<Longrightarrow>
      books_from_xml open_file xml pint pfl path lib = (Inl e, lib1)"
    using add_records_failure [OF len before] nth import by simp
  obtain a where authors: "?r ''authors'' = Some (AuthorList a)"
    using record_of_child_authors by blast
  have rows: "\<exists>new. lib1 = lib @ new \<and> length new = i"
    using add_records_rows [OF before] len by simp
  have year: "\<And>e. py_int pint yv = Inl e \<Longrightarrow> add_record pint pfl ?r lib1 = (Inl e, lib1)"
    using cat tit yr authors by (simp add: add_record_def)
  have price: "\<And>n pv e. py_int pint yv = Inr n \<Longrightarrow> ?r ''price'' = Some pv \<Longrightarrow>
      py_float pfl pv = Inl e \<Longrightarrow> add_record pint pfl ?r lib1 = (Inl e, lib1)"
    using cat tit yr authors by (simp add: add_record_def)
  have dup: "add_record pint pfl ?r lib1 = (Inl DuplicatedBookTitleError, lib1)"
    if n: "py_int pint yv = Inr n" and pv: "?r ''price'' = Some pv" and x: "py_float pfl pv = Inr x"
      and t: "tit = Text (Some t)" and stored: "t \<in> title ` set lib1" for n pv x t
  proof -
    obtain c where c: "cat = Text c" using record_of_child_shape [OF cat] by auto
    obtain lang where lang: "dict_get ?r ''language'' = Text lang"
      using dict_get_shape [of "''language''"] by auto
    obtain cov where cov: "dict_get ?r ''cover'' = Text cov"
      using dict_get_shape [of "''cover''"] by auto
    have "check_book_exist (Some t) lib1" using stored by (simp add: check_book_exist_Some)
    then have "add_book c (Some t) a n x lang cov lib1 = (Inl DuplicatedBookTitleError, lib1)"
      by (simp add: add_book_def)
    then show ?thesis
      using cat tit yr authors n pv x t c lang cov by (simp add: add_record_def)
  qed
  show ?thesis
    using rows stop [OF year] stop [OF price] stop [OF dup] by blast
qed

theorem books_from_xml_first_failure_witness:
  "books_from_xml (\<lambda>p. Opened []) (\<lambda>s. Some (shelf (book_elem ''Persuasion'' ''abc'' ''7'')))
       decimal decimal_real ''books.xml'' [dune]
     = (Inl (ValueError ''int''), [dune, emma])
   \<and> books_from_xml (\<lambda>p. Opened []) (\<lambda>s. Some (shelf (book_elem ''Persuasion'' ''1817'' ''x'')))
       decimal decimal_real ''books.xml'' [dune]
     = (Inl (ValueError ''float''), [dune, emma])
   \<and> books_from_xml (\<lambda>p. Opened []) (\<lambda>s. Some (shelf (book_elem ''Dune'' ''1965'' ''12'')))
       decimal decimal_real ''books.xml'' [dune]
     = (Inl DuplicatedBookTitleError, [dune, emma])"
  using
    books_from_xml_first_failure [of "\<lambda>p. Opened []" "''books.xml''" "[]"
      "\<lambda>s. Some (shelf (book_elem ''Persuasion'' ''abc'' ''7''))"
      "shelf (book_elem ''Persuasion'' ''abc'' ''7'')" 1 decimal decimal_real "[dune]" "[dune, emma]"
      "Text (Some ''novel'')" "Text (Some ''Persuasion'')" "Text (Some ''abc'')"]
    books_from_xml_first_failure [of "\<lambda>p. Opened []" "''books.xml''" "[]"
      "\<lambda>s. Some (shelf (book_elem ''Persuasion'' ''1817'' ''x''))"
      "shelf (book_elem ''Persuasion'' ''1817'' ''x'')" 1 decimal decimal_real "[dune]" "[dune, emma]"
      "Text (Some ''novel'')" "Text (Some ''Persuasion'')" "Text (Some ''1817'')"]
    books_from_xml_first_failure [of "\<lambda>p. Opened []" "''books.xml''" "[]"
      "\<lambda>s. Some (shelf (book_elem ''Dune'' ''1965'' ''12''))"
      "shelf (book_elem ''Dune'' ''1965'' ''12'')" 1 decimal decimal_real "[dune]" "[dune, emma]"
      "Text (Some ''novel'')" "Text (Some ''Dune'')" "Text (Some ''1965'')"]
  by (simp add: shelf_def records_of_root_def add_record_emma [unfolded record_of_book_elem]
      record_of_book_elem py_int_def py_float_def decimal_def decimal_real_def)
     (simp add: dune_def emma_def)

subsection \<open>Opening the file\<close>

text \<open>
  Claim C4, as stated, fails: for a file that exists and may not be read, and for a path
  to a missing file that leads through a plain file, the error of \<open>open\<close> is not
  \<open>FileNotFoundError\<close> and is not turned into \<open>WrongXmlPathError\<close>.
\<close>

theorem books_from_xml_unreadable_counterexample:
  "books_from_xml
       (\<lambda>p. if p = ''books.xml'' then OpenRaises PermissionError
             else if p = ''books.xml/more.xml'' then OpenRaises NotADirectoryError
             else OpenRaises FileNotFoundError)
       (\<lambda>s. None) decimal decimal_real ''books.xml'' [dune]
     = (Inl PermissionError, [dune])
   \<and> books_from_xml
       (\<lambda>p. if p = ''books.xml'' then OpenRaises PermissionError
             else if p = ''books.xml/more.xml'' then OpenRaises NotADirectoryError
             else OpenRaises FileNotFoundError)
       (\<lambda>s. None) decimal decimal_real ''books.xml/more.xml'' [dune]
     = (Inl NotADirectoryError, [dune])
   \<and> PermissionError \<noteq> WrongXmlPathError \<and> NotADirectoryError \<noteq> WrongXmlPathError"
  by (simp add: books_from_xml_def)

text \<open>
  Claim C4, amended. For every path on which \<open>open\<close> raises \<open>FileNotFoundError\<close>,
  \<open>books_from_xml\<close> raises \<open>WrongXmlPathError\<close>; for every path on which \<open>open\<close> raises
  another exception, \<open>books_from_xml\<close> raises that exception. In both cases the result is
  the same whatever the XML parser and the builtins would do, and the rows are as before.
\<close>

theorem books_from_xml_open_failure:
  "(open_file path = OpenRaises FileNotFoundError \<longrightarrow>
      books_from_xml open_file xml pint pfl path lib = (Inl WrongXmlPathError, lib))
   \<and> (\<forall>e. open_file path = OpenRaises e \<and> e \<noteq> FileNotFoundError \<longrightarrow>
      books_from_xml open_file xml pint pfl path lib = (Inl e, lib))"
  by (simp add: books_from_xml_def)

theorem books_from_xml_open_failure_witness:
  "books_from_xml
       (\<lambda>p. if p = ''books.xml'' then OpenRaises PermissionError else OpenRaises FileNotFoundError)
       (\<lambda>s. None) decimal decimal_real ''nothing.xml'' [dune]
     = (Inl WrongXmlPathError, [dune])
   \<and> books_from_xml
       (\<lambda>p. if p = ''books.xml'' then OpenRaises PermissionError else OpenRaises FileNotFoundError)
       (\<lambda>s. None) decimal decimal_real ''books.xml'' [dune]
     = (Inl PermissionError, [dune])"
  using
    books_from_xml_open_failure [of
      "\<lambda>p. if p = ''books.xml'' then OpenRaises PermissionError else OpenRaises FileNotFoundError"
      "''nothing.xml''" "\<lambda>s. None" decimal decimal_real "[dune]"]
    books_from_xml_open_failure [of
      "\<lambda>p. if p = ''books.xml'' then OpenRaises PermissionError else OpenRaises FileNotFoundError"
      "''books.xml''" "\<lambda>s. None" decimal decimal_real "[dune]"]
  by simp

end
